theory Spec2Isabelle
  imports Complex_Main "HOL-Library.Word"
begin

section \<open>JavaScript values used by the chat code\<close>

text \<open>
  A JavaScript string is a sequence of UTF-16 code units. \<open>utf16\<close> writes an ASCII
  literal as such a sequence.
\<close>

type_synonym jsstring = "16 word list"

definition utf16 :: "string \<Rightarrow> jsstring" where
  "utf16 s = map of_char s"

text \<open>
  \<open>String.prototype.trim\<close> removes the code units of the ECMAScript productions
  WhiteSpace (TAB, VT, FF, SP, NBSP, ZWNBSP and the category Zs) and LineTerminator
  (LF, CR, LS, PS) from both ends.
\<close>

definition isWhiteSpace :: "16 word \<Rightarrow> bool" where
  "isWhiteSpace c =
     (c = 0x0009 \<or> c = 0x000A \<or> c = 0x000B \<or> c = 0x000C \<or> c = 0x000D \<or>
      c = 0x0020 \<or> c = 0x00A0 \<or> c = 0x1680 \<or> (0x2000 \<le> c \<and> c \<le> 0x200A) \<or>
      c = 0x2028 \<or> c = 0x2029 \<or> c = 0x202F \<or> c = 0x205F \<or> c = 0x3000 \<or>
      c = 0xFEFF)"

definition trim :: "jsstring \<Rightarrow> jsstring" where
  "trim s = rev (dropWhile isWhiteSpace (rev (dropWhile isWhiteSpace s)))"

text \<open>
  \<open>Date.now()\<close> is a count of milliseconds, read from the system clock; every reading
  is an argument of the function that takes it. \<open>toString\<close> is
  \<open>Number.prototype.toString\<close> on such a count: its decimal digits (a clock reading
  lies far below \<open>10^21\<close>, from where on JavaScript prints an exponent).
\<close>

fun toString :: "nat \<Rightarrow> jsstring" where
  "toString n =
     (if n < 10 then [of_nat (48 + n)]
      else toString (n div 10) @ [of_nat (48 + n mod 10)])"

declare toString.simps [simp del]

text \<open>
  \<open>new Date().toISOString()\<close> is kept symbolic: the ISO-8601 rendering of the instant
  read from the clock.
\<close>

datatype isostring = ToISOString nat

section \<open>The chat context (src/context/ChatContext.tsx)\<close>

record ChatMessage =
  msg_id :: jsstring
  msg_text :: jsstring
  fromChild :: bool
  timestamp :: isostring
  sentiment :: "jsstring option"
  sentiment_score :: "real option"
  suggestions :: "jsstring list option"

record Chat =
  chat_id :: jsstring
  messages :: "ChatMessage list"

text \<open>The two \<open>useState\<close> cells of \<open>ChatProvider\<close>.\<close>

record ChatContext =
  chats :: "Chat list"
  currentChatId :: "jsstring option"

text \<open>
  \<open>createNewChat\<close> reads the clock once (\<open>now\<close>), queues the updater
  \<open>prev => [...prev, newChat]\<close>, sets the active id and returns the id.
\<close>

definition createNewChat :: "nat \<Rightarrow> ChatContext \<Rightarrow> jsstring \<times> ChatContext" where
  "createNewChat now st =
     (let newChat = \<lparr>chat_id = toString now, messages = []\<rparr>
      in (chat_id newChat,
          st\<lparr>chats := chats st @ [newChat], currentChatId := Some (chat_id newChat)\<rparr>))"

definition addMessageToChat :: "jsstring \<Rightarrow> ChatMessage \<Rightarrow> ChatContext \<Rightarrow> ChatContext" where
  "addMessageToChat chatId message st =
     st\<lparr>chats :=
          map (\<lambda>chat. if chat_id chat = chatId
                       then chat\<lparr>messages := messages chat @ [message]\<rparr>
                       else chat)
              (chats st)\<rparr>"

section \<open>The chat request (src/api/chat.ts)\<close>

record FetchChatResponseInput =
  user_input :: jsstring

record AIResponse =
  response :: jsstring
  res_sentiment :: jsstring
  res_sentiment_score :: real
  suggested_actions :: "jsstring list"

text \<open>
  A request as \<open>fetch\<close> receives it. \<open>body\<close> is the value that the code passes to
  \<open>JSON.stringify\<close>.
\<close>

record 'b request =
  url :: jsstring
  http_method :: jsstring
  content_type :: jsstring
  authorization :: "jsstring option"
  body :: 'b

text \<open>
  A response: \<open>res_text\<close> is what \<open>res.text()\<close> resolves to, \<open>res_json\<close> what
  \<open>res.json()\<close> resolves to (\<open>None\<close> when it rejects). \<open>ok\<close> is \<open>Response.ok\<close>:
  a status in the range 200 to 299.
\<close>

record fetch_response =
  status :: nat
  res_text :: jsstring
  res_json :: "AIResponse option"

definition ok :: "fetch_response \<Rightarrow> bool" where
  "ok res = (200 \<le> status res \<and> status res \<le> 299)"

text \<open>\<open>await fetch(...)\<close> either yields a response or throws (the network call failed).\<close>

datatype fetch_outcome = Rejected | Resolved fetch_response

text \<open>
  The errors thrown on the way: \<open>Error('No access token found')\<close>,
  \<open>Error(`AI error: ${res.status} ${text}`)\<close>, the rejection of \<open>fetch\<close> and the
  rejection of \<open>res.json()\<close>.
\<close>

datatype error =
    NoAccessToken
  | AIError nat jsstring
  | FetchRejected
  | JsonRejected

text \<open>
  What the page reads from its surroundings: local storage, the build-time constant
  \<open>import.meta.env.VITE_API_URL\<close>, and the network.
\<close>

record env =
  localStorage :: "jsstring \<rightharpoonup> jsstring"
  API_BASE_URL :: jsstring
  fetch :: "FetchChatResponseInput request \<Rightarrow> fetch_outcome"

definition chat_request :: "env \<Rightarrow> jsstring \<Rightarrow> FetchChatResponseInput \<Rightarrow> FetchChatResponseInput request" where
  "chat_request e token inp =
     \<lparr>url = API_BASE_URL e @ utf16 ''/auth/chat/respond'',
      http_method = utf16 ''POST'',
      content_type = utf16 ''application/json'',
      authorization = Some (utf16 ''Bearer '' @ token),
      body = inp\<rparr>"

text \<open>
  \<open>fetchChatResponse\<close> returns what it throws (\<open>Inl\<close>) or resolves to (\<open>Inr\<close>), with the
  list of the requests it has handed to \<open>fetch\<close>. \<open>!token\<close> holds of \<open>null\<close> and of the
  empty string.
\<close>

definition fetchChatResponse ::
  "env \<Rightarrow> FetchChatResponseInput \<Rightarrow> (error + AIResponse) \<times> FetchChatResponseInput request list" where
  "fetchChatResponse e inp =
     (case localStorage e (utf16 ''access_token'') of
        None \<Rightarrow> (Inl NoAccessToken, [])
      | Some token \<Rightarrow>
          if token = [] then (Inl NoAccessToken, [])
          else
            let req = chat_request e token inp in
            (case fetch e req of
               Rejected \<Rightarrow> (Inl FetchRejected, [req])
             | Resolved res \<Rightarrow>
                 if \<not> ok res then (Inl (AIError (status res) (res_text res)), [req])
                 else (case res_json res of
                         None \<Rightarrow> (Inl JsonRejected, [req])
                       | Some r \<Rightarrow> (Inr r, [req]))))"

section \<open>The message hook and the chat page (src/hooks/useChatMessages.ts, src/pages/Chat.tsx)\<close>

text \<open>
  The state one \<open>Chat\<close> page works on: the chat context, the two cells of
  \<open>useChatMessages\<close>, the two cells of the page, and what has left the page (the requests
  given to \<open>fetch\<close> and the toasts shown).
\<close>

record ChatPage =
  ctx :: ChatContext
  hook_messages :: "ChatMessage list"
  isLoading :: bool
  input :: jsstring
  isTyping :: bool
  requests :: "FetchChatResponseInput request list"
  toasts :: "jsstring list"

text \<open>\<open>!currentChatId\<close> holds of \<open>null\<close> and of the empty string.\<close>

definition active_chat :: "ChatPage \<Rightarrow> jsstring option" where
  "active_chat st =
     (case currentChatId (ctx st) of
        None \<Rightarrow> None
      | Some cid \<Rightarrow> if cid = [] then None else Some cid)"

definition addUserMessage :: "ChatMessage \<Rightarrow> ChatPage \<Rightarrow> ChatPage" where
  "addUserMessage msg st =
     (case active_chat st of
        None \<Rightarrow> st
      | Some cid \<Rightarrow>
          st\<lparr>ctx := addMessageToChat cid msg (ctx st),
             hook_messages := hook_messages st @ [msg]\<rparr>)"

text \<open>
  \<open>addAIMessage\<close> reads the clock twice after a successful fetch (\<open>t_id\<close> for the id,
  \<open>t_ts\<close> for the timestamp). Its \<open>catch\<close> takes every error of the \<open>try\<close> block and
  shows a toast, so the promise it returns always resolves.
\<close>

definition aiMsg :: "nat \<Rightarrow> nat \<Rightarrow> AIResponse \<Rightarrow> ChatMessage" where
  "aiMsg t_id t_ts res =
     \<lparr>msg_id = toString t_id @ utf16 ''_ai'',
      msg_text = response res,
      fromChild = False,
      timestamp = ToISOString t_ts,
      sentiment = Some (res_sentiment res),
      sentiment_score = Some (res_sentiment_score res),
      suggestions = Some (suggested_actions res)\<rparr>"

definition addAIMessage :: "env \<Rightarrow> nat \<Rightarrow> nat \<Rightarrow> jsstring \<Rightarrow> ChatPage \<Rightarrow> ChatPage" where
  "addAIMessage e t_id t_ts inp st =
     (let st1 = st\<lparr>isLoading := True\<rparr>;
          (r, reqs) = fetchChatResponse e \<lparr>user_input = inp\<rparr>;
          st2 = st1\<lparr>requests := requests st1 @ reqs\<rparr>;
          st3 = (case r of
                   Inr res \<Rightarrow>
                     (let st' = (case active_chat st2 of
                                   None \<Rightarrow> st2
                                 | Some cid \<Rightarrow>
                                     st2\<lparr>ctx :=
                                           addMessageToChat cid (aiMsg t_id t_ts res) (ctx st2)\<rparr>)
                      in st'\<lparr>hook_messages := hook_messages st' @ [aiMsg t_id t_ts res]\<rparr>)
                 | Inl err \<Rightarrow> st2\<lparr>toasts := toasts st2 @ [utf16 ''AI response failed.'']\<rparr>)
      in st3\<lparr>isLoading := False\<rparr>)"

text \<open>
  The four clock readings of one \<open>sendMessage\<close>: the user message's id and timestamp, the
  AI message's id and timestamp.
\<close>

record readings =
  user_id_ms :: nat
  user_ts_ms :: nat
  ai_id_ms :: nat
  ai_ts_ms :: nat

definition userMsg :: "readings \<Rightarrow> jsstring \<Rightarrow> ChatMessage" where
  "userMsg t txt =
     \<lparr>msg_id = toString (user_id_ms t),
      msg_text = txt,
      fromChild = True,
      timestamp = ToISOString (user_ts_ms t),
      sentiment = None,
      sentiment_score = None,
      suggestions = None\<rparr>"

text \<open>
  One run of \<open>sendMessage\<close>, from the click to the end of its \<open>finally\<close>, with no other
  event handled in between. Since \<open>addAIMessage\<close> never rejects, the \<open>catch\<close> of
  \<open>sendMessage\<close> is never entered.
\<close>

definition sendMessage :: "env \<Rightarrow> readings \<Rightarrow> ChatPage \<Rightarrow> ChatPage" where
  "sendMessage e t st =
     (let txt = trim (input st) in
      if txt = [] then st
      else
        (let st1 = addUserMessage (userMsg t txt) st;
             st2 = st1\<lparr>input := [], isTyping := True\<rparr>;
             st3 = addAIMessage e (ai_id_ms t) (ai_ts_ms t) txt st2
         in st3\<lparr>isTyping := False\<rparr>))"

section \<open>The offline outbox (src/utils/outboxStore.ts, public/service-worker.js)\<close>

text \<open>
  The keys of the object store. IndexedDB orders numbers before strings, numbers by value
  and strings by their code units. (Dates, binary keys and arrays do not occur: an \<open>id\<close>
  of this code base is a string of digits, and a generated key is a positive integer.)
\<close>

datatype idb_key = NumberKey nat | StringKey jsstring

fun string_less :: "jsstring \<Rightarrow> jsstring \<Rightarrow> bool" where
  "string_less [] [] = False"
| "string_less [] (y # ys) = True"
| "string_less (x # xs) [] = False"
| "string_less (x # xs) (y # ys) = (x < y \<or> (x = y \<and> string_less xs ys))"

fun key_less :: "idb_key \<Rightarrow> idb_key \<Rightarrow> bool" where
  "key_less (NumberKey a) (NumberKey b) = (a < b)"
| "key_less (NumberKey a) (StringKey t) = True"
| "key_less (StringKey s) (NumberKey b) = False"
| "key_less (StringKey s) (StringKey t) = string_less s t"

text \<open>
  The object store \<open>outbox\<close> of the database \<open>chatApp\<close>, created by the \<open>upgrade\<close> of
  \<open>getDB\<close> with \<open>keyPath: "id"\<close> and \<open>autoIncrement: true\<close>. The store holds its
  records in ascending key order; a record is the key (the stored object's \<open>id\<close>) with the
  rest of the object. The key generator of a new store starts at 1.
\<close>

record 'm outbox =
  entries :: "(idb_key \<times> 'm) list"
  generator :: nat

definition createObjectStore :: "'m outbox" where
  "createObjectStore = \<lparr>entries = [], generator = 1\<rparr>"

fun put_record :: "idb_key \<times> 'm \<Rightarrow> (idb_key \<times> 'm) list \<Rightarrow> (idb_key \<times> 'm) list" where
  "put_record r [] = [r]"
| "put_record r (x # xs) =
     (if key_less (fst r) (fst x) then r # x # xs else x # put_record r xs)"

text \<open>
  The object handed to \<open>saveMessageToOutbox\<close> (typed \<open>any\<close>): its \<open>id\<close> property, when
  it has one, and its other properties.
\<close>

record 'm message_object =
  id_property :: "idb_key option"
  other_properties :: 'm

text \<open>
  What the outbox operations and the service worker throw: the \<open>ConstraintError\<close> of
  \<open>add\<close>, a \<open>TypeError\<close>, and the rejection of \<open>fetch\<close>.
\<close>

datatype outbox_error = ConstraintError | TypeError | FetchFailed

text \<open>
  \<open>db.add(STORE_NAME, msg)\<close> on a store with an in-line key and a key generator. An
  object with an \<open>id\<close> is stored under that id; \<open>add\<close> rejects when the key is in use,
  and a numeric id at or above the generator moves the generator past it. An object
  without an \<open>id\<close> gets the generator's key.
\<close>

definition saveMessageToOutbox :: "'m message_object \<Rightarrow> 'm outbox \<Rightarrow> outbox_error + 'm outbox" where
  "saveMessageToOutbox msg db =
     (case id_property msg of
        None \<Rightarrow>
          Inr (db\<lparr>entries := put_record (NumberKey (generator db), other_properties msg) (entries db),
                  generator := generator db + 1\<rparr>)
      | Some k \<Rightarrow>
          if k \<in> set (map fst (entries db)) then Inl ConstraintError
          else Inr (db\<lparr>entries := put_record (k, other_properties msg) (entries db),
                       generator := (case k of
                                       NumberKey n \<Rightarrow> max (generator db) (n + 1)
                                     | StringKey s \<Rightarrow> generator db)\<rparr>))"

text \<open>\<open>getAll\<close> delivers the records in ascending order of their keys.\<close>

definition getOutboxMessages :: "'m outbox \<Rightarrow> (idb_key \<times> 'm) list" where
  "getOutboxMessages db = entries db"

text \<open>\<open>clear\<close> removes the records and leaves the key generator as it is.\<close>

definition clearOutbox :: "'m outbox \<Rightarrow> 'm outbox" where
  "clearOutbox db = db\<lparr>entries := []\<rparr>"

text \<open>
  What the variable \<open>db\<close> can hold. \<open>outboxStore.ts\<close> opens the database with
  \<open>openDB\<close> of the library idb, whose promise resolves to a database. The service worker
  calls the factory itself: \<open>indexedDB.open\<close> returns an \<open>IDBOpenDBRequest\<close>, which
  is no promise, so \<open>await\<close> yields the request as it is.
\<close>

datatype 'm opened = IDBOpenDBRequest "'m outbox" | IDBPDatabase "'m outbox"

definition openDB :: "'m outbox \<Rightarrow> 'm opened" where
  "openDB store = IDBPDatabase store"

definition indexedDB_open :: "'m outbox \<Rightarrow> 'm opened" where
  "indexedDB_open store = IDBOpenDBRequest store"

text \<open>
  \<open>db.transaction("outbox", mode)\<close>. On a database it is the method that opens a
  transaction on the store. On a request, \<open>transaction\<close> is a property holding
  \<open>null\<close> or a transaction object, not a function: the call throws a \<open>TypeError\<close>.
\<close>

fun transaction :: "'m opened \<Rightarrow> outbox_error + 'm outbox" where
  "transaction (IDBOpenDBRequest store) = Inl TypeError"
| "transaction (IDBPDatabase store) = Inr store"

definition outbox_request :: "idb_key \<times> 'm \<Rightarrow> (idb_key \<times> 'm) request" where
  "outbox_request msg =
     \<lparr>url = utf16 ''/api/chat'',
      http_method = utf16 ''POST'',
      content_type = utf16 ''application/json'',
      authorization = None,
      body = msg\<rparr>"

text \<open>
  The send loop (lines 8 to 14 of the listener). \<open>await fetch\<close> stands in no \<open>try\<close>:
  when a fetch rejects, the loop throws there. A response with an error status is a
  resolved fetch, and the loop goes on.
\<close>

fun post_each ::
  "((idb_key \<times> 'm) request \<Rightarrow> fetch_outcome) \<Rightarrow> (idb_key \<times> 'm) list \<Rightarrow>
   outbox_error option \<times> (idb_key \<times> 'm) request list" where
  "post_each net [] = (None, [])"
| "post_each net (msg # rest) =
     (case net (outbox_request msg) of
        Rejected \<Rightarrow> (Some FetchFailed, [outbox_request msg])
      | Resolved res \<Rightarrow>
          (case post_each net rest of (err, reqs) \<Rightarrow> (err, outbox_request msg # reqs)))"

text \<open>
  One run of the \<open>online\<close> listener: the store afterwards, the requests handed to
  \<open>fetch\<close>, and what the listener threw. The listener takes \<open>db\<close> from
  \<open>indexedDB.open\<close> and calls \<open>db.transaction\<close> on it (line 4); only past that call
  come \<open>getAll\<close>, the send loop, and the \<open>clear\<close> after the loop (lines 16 and 17).
\<close>

record 'm flushed =
  db_after :: "'m outbox"
  posted :: "(idb_key \<times> 'm) request list"
  thrown :: "outbox_error option"

definition online_handler ::
  "((idb_key \<times> 'm) request \<Rightarrow> fetch_outcome) \<Rightarrow> 'm outbox \<Rightarrow> 'm flushed" where
  "online_handler net stored =
     (let db = indexedDB_open stored in
      case transaction db of
        Inl err \<Rightarrow> \<lparr>db_after = stored, posted = [], thrown = Some err\<rparr>
      | Inr store \<Rightarrow>
          (let msgs = getOutboxMessages store in
           case post_each net msgs of
             (Some err, reqs) \<Rightarrow> \<lparr>db_after = stored, posted = reqs, thrown = Some err\<rparr>
           | (None, reqs) \<Rightarrow>
               (case transaction db of
                  Inl err \<Rightarrow> \<lparr>db_after = stored, posted = reqs, thrown = Some err\<rparr>
                | Inr store' \<Rightarrow>
                    \<lparr>db_after = clearOutbox store', posted = reqs, thrown = None\<rparr>)))"

text \<open>Two networks: one where every fetch rejects, one that answers every request with a 500.\<close>

definition offline :: "'b request \<Rightarrow> fetch_outcome" where
  "offline req = Rejected"

definition failing_500 :: "'b request \<Rightarrow> fetch_outcome" where
  "failing_500 req = Resolved \<lparr>status = 500, res_text = utf16 ''fail'', res_json = None\<rparr>"

section \<open>Concrete states and servers\<close>

text \<open>The initial state of \<open>ChatProvider\<close>.\<close>

definition initial_context :: ChatContext where
  "initial_context = \<lparr>chats = [], currentChatId = None\<rparr>"

definition example_message :: ChatMessage where
  "example_message =
     \<lparr>msg_id = utf16 ''1700000000005'', msg_text = utf16 ''Hello AI'', fromChild = True,
      timestamp = ToISOString 1700000000005, sentiment = None, sentiment_score = None,
      suggestions = None\<rparr>"

text \<open>Two sessions, the first one active.\<close>

definition example_context :: ChatContext where
  "example_context =
     \<lparr>chats = [\<lparr>chat_id = utf16 ''1'', messages = []\<rparr>,
               \<lparr>chat_id = utf16 ''2'', messages = [example_message]\<rparr>],
      currentChatId = Some (utf16 ''1'')\<rparr>"

definition example_page :: "jsstring \<Rightarrow> ChatPage" where
  "example_page typed =
     \<lparr>ctx = example_context, hook_messages = [], isLoading = False, input = typed,
      isTyping = False, requests = [], toasts = []\<rparr>"

definition example_times :: readings where
  "example_times =
     \<lparr>user_id_ms = 1700000000100, user_ts_ms = 1700000000100,
      ai_id_ms = 1700000000350, ai_ts_ms = 1700000000350\<rparr>"

text \<open>The handler of \<open>src/__mocks__/server.ts\<close>: it echoes the input.\<close>

definition mock_server :: "FetchChatResponseInput request \<Rightarrow> fetch_outcome" where
  "mock_server req =
     Resolved
       \<lparr>status = 200,
        res_text = [],
        res_json = Some \<lparr>response = utf16 ''AI echo: '' @ user_input (body req),
                         res_sentiment = utf16 ''neutral'',
                         res_sentiment_score = 0.5,
                         suggested_actions = [utf16 ''Keep the conversation going'']\<rparr>\<rparr>"

definition signed_in :: "jsstring \<rightharpoonup> jsstring" where
  "signed_in = [utf16 ''access_token'' \<mapsto> utf16 ''tok'']"

definition example_env ::
  "(jsstring \<rightharpoonup> jsstring) \<Rightarrow> (FetchChatResponseInput request \<Rightarrow> fetch_outcome) \<Rightarrow> env" where
  "example_env storage net = \<lparr>localStorage = storage, API_BASE_URL = utf16 ''/api'', fetch = net\<rparr>"

text \<open>Two queued messages without an \<open>id\<close>, and two with the ids of chat messages.\<close>

definition message_one :: "jsstring message_object" where
  "message_one = \<lparr>id_property = None, other_properties = utf16 ''one''\<rparr>"

definition message_two :: "jsstring message_object" where
  "message_two = \<lparr>id_property = None, other_properties = utf16 ''two''\<rparr>"

definition message_9 :: "jsstring message_object" where
  "message_9 = \<lparr>id_property = Some (StringKey (utf16 ''9'')), other_properties = utf16 ''first''\<rparr>"

definition message_10 :: "jsstring message_object" where
  "message_10 = \<lparr>id_property = Some (StringKey (utf16 ''10'')), other_properties = utf16 ''second''\<rparr>"

section \<open>The session store\<close>

text \<open>
  C6. Every call of \<open>createNewChat\<close> returns: it appends to the collection a new session
  with an empty message list, sets the active-session pointer to the id of that session,
  and returns that same id.
\<close>

theorem createNewChat_postcondition:
  "(case createNewChat now st of
      (newId, st') \<Rightarrow>
        chats st' = chats st @ [\<lparr>chat_id = newId, messages = []\<rparr>] \<and>
        currentChatId st' = Some newId)"
  by (simp add: createNewChat_def)

text \<open>
  C4. The claim is that every call of \<open>createNewChat\<close> yields an id distinct from the
  ids created earlier. The id is the clock reading alone: two calls that read the same
  millisecond return the same id, and the store then holds two sessions with that id.
\<close>

theorem createNewChat_same_millisecond:
  "(case createNewChat 1700000000000 initial_context of
      (id1, st1) \<Rightarrow>
        (case createNewChat 1700000000000 st1 of
           (id2, st2) \<Rightarrow>
             id1 = id2 \<and>
             map chat_id (chats st2) = [utf16 ''1700000000000'', utf16 ''1700000000000'']))"
  by (simp add: createNewChat_def initial_context_def toString.simps utf16_def)

text \<open>
  The decimal rendering is injective, so two calls return the same id exactly when they
  read the same millisecond.
\<close>

lemma toString_not_Nil: "toString n \<noteq> []"
  by (subst toString.simps) simp

lemma digit_inj:
  assumes "a < 10" "b < 10" "(of_nat (48 + a) :: 16 word) = of_nat (48 + b)"
  shows "a = b"
proof -
  from assms(3) have "unat (of_nat (48 + a) :: 16 word) = unat (of_nat (48 + b) :: 16 word)"
    by (rule arg_cong)
  then have "(48 + a) mod 2 ^ 16 = (48 + b) mod 2 ^ 16"
    by (simp only: unat_of_nat len_of_numeral_defs) simp
  with assms(1,2) show ?thesis by simp
qed

lemma toString_inj: "toString n = toString m \<Longrightarrow> n = m"
proof (induction n arbitrary: m rule: toString.induct)
  case (1 n)
  show ?case
  proof (cases "n < 10")
    case True
    then have n: "toString n = [of_nat (48 + n)]" by (subst toString.simps) simp
    show ?thesis
    proof (cases "m < 10")
      case True
      then have "toString m = [of_nat (48 + m)]" by (subst toString.simps) simp
      with n "1.prems" \<open>n < 10\<close> True show ?thesis by (auto dest: digit_inj)
    next
      case False
      then have "toString m = toString (m div 10) @ [of_nat (48 + m mod 10)]"
        by (subst toString.simps) simp
      with n "1.prems" toString_not_Nil [of "m div 10"] show ?thesis
        by (cases "toString (m div 10)") auto
    qed
  next
    case False
    then have n: "toString n = toString (n div 10) @ [of_nat (48 + n mod 10)]"
      by (subst toString.simps) simp
    show ?thesis
    proof (cases "m < 10")
      case True
      then have "toString m = [of_nat (48 + m)]" by (subst toString.simps) simp
      with n "1.prems" toString_not_Nil [of "n div 10"] show ?thesis
        by (cases "toString (n div 10)") auto
    next
      case m: False
      then have "toString m = toString (m div 10) @ [of_nat (48 + m mod 10)]"
        by (subst toString.simps) simp
      with n "1.prems" have "toString (n div 10) = toString (m div 10)"
        and d: "(of_nat (48 + n mod 10) :: 16 word) = of_nat (48 + m mod 10)"
        by simp_all
      then have "n div 10 = m div 10"
        using "1.IH" [OF False] by simp
      moreover have "n mod 10 = m mod 10"
        using d by (intro digit_inj) simp_all
      ultimately show ?thesis
        by (metis div_mult_mod_eq)
    qed
  qed
qed

lemma createNewChat_same_id_iff:
  "fst (createNewChat t1 st1) = fst (createNewChat t2 st2) \<longleftrightarrow> t1 = t2"
  by (auto simp: createNewChat_def dest: toString_inj)

text \<open>
  C5. \<open>addMessageToChat chatId m\<close> appends \<open>m\<close> to the end of the message list of every
  session whose id is \<open>chatId\<close>; when no session has that id, the store is unchanged.
  The function has no failing branch.
\<close>

theorem addMessageToChat_appends_or_noop:
  "(\<forall>i < length (chats st). chat_id (chats st ! i) = chatId \<longrightarrow>
      chats (addMessageToChat chatId m st) ! i =
        (chats st ! i)\<lparr>messages := messages (chats st ! i) @ [m]\<rparr>) \<and>
   (chatId \<notin> chat_id ` set (chats st) \<longrightarrow> addMessageToChat chatId m st = st)"
proof (intro conjI allI impI)
  fix i assume "i < length (chats st)" "chat_id (chats st ! i) = chatId"
  then show "chats (addMessageToChat chatId m st) ! i =
        (chats st ! i)\<lparr>messages := messages (chats st ! i) @ [m]\<rparr>"
    by (simp add: addMessageToChat_def)
next
  assume "chatId \<notin> chat_id ` set (chats st)"
  then have "map (\<lambda>chat. if chat_id chat = chatId
                       then chat\<lparr>messages := messages chat @ [m]\<rparr>
                       else chat) (chats st) = chats st"
    by (intro map_idI) auto
  then show "addMessageToChat chatId m st = st"
    by (simp add: addMessageToChat_def)
qed

theorem addMessageToChat_appends_or_noop_witness:
  "chats (addMessageToChat (utf16 ''2'') example_message example_context) ! 1 =
     \<lparr>chat_id = utf16 ''2'', messages = [example_message, example_message]\<rparr> \<and>
   addMessageToChat (utf16 ''3'') example_message example_context = example_context"
  using addMessageToChat_appends_or_noop [of example_context "utf16 ''2''" example_message]
    addMessageToChat_appends_or_noop [of example_context "utf16 ''3''" example_message]
  by (simp add: example_context_def utf16_def)

text \<open>
  C9. \<open>addMessageToChat chatId m\<close> leaves every session with another id as it is, keeps
  the length and the order of the session collection, and leaves \<open>currentChatId\<close>
  unchanged.
\<close>

theorem addMessageToChat_frame:
  "length (chats (addMessageToChat chatId m st)) = length (chats st) \<and>
   map chat_id (chats (addMessageToChat chatId m st)) = map chat_id (chats st) \<and>
   currentChatId (addMessageToChat chatId m st) = currentChatId st \<and>
   (\<forall>i < length (chats st). chat_id (chats st ! i) \<noteq> chatId \<longrightarrow>
      chats (addMessageToChat chatId m st) ! i = chats st ! i)"
  by (simp add: addMessageToChat_def comp_def)

theorem addMessageToChat_frame_witness:
  "chat_id (chats example_context ! 1) \<noteq> utf16 ''1'' \<and>
   chats (addMessageToChat (utf16 ''1'') example_message example_context) ! 1 =
     chats example_context ! 1 \<and>
   map chat_id (chats (addMessageToChat (utf16 ''1'') example_message example_context)) =
     [utf16 ''1'', utf16 ''2''] \<and>
   currentChatId (addMessageToChat (utf16 ''1'') example_message example_context) =
     Some (utf16 ''1'')"
  using addMessageToChat_frame [of "utf16 ''1''" example_message example_context]
  by (simp add: example_context_def utf16_def)

section \<open>The chat request\<close>

text \<open>
  C7. When local storage holds no access token, \<open>fetchChatResponse\<close> throws the error
  \<open>No access token found\<close> and has handed no request to \<open>fetch\<close>.
\<close>

theorem fetchChatResponse_without_token:
  "localStorage e (utf16 ''access_token'') = None \<Longrightarrow>
   fetchChatResponse e inp = (Inl NoAccessToken, [])"
  by (simp add: fetchChatResponse_def)

theorem fetchChatResponse_without_token_witness:
  "localStorage (example_env Map.empty mock_server) (utf16 ''access_token'') = None \<and>
   fetchChatResponse (example_env Map.empty mock_server) \<lparr>user_input = utf16 ''Hello AI''\<rparr> =
     (Inl NoAccessToken, [])"
  using fetchChatResponse_without_token
    [of "example_env Map.empty mock_server" "\<lparr>user_input = utf16 ''Hello AI''\<rparr>"]
  by (simp add: example_env_def)

section \<open>Sending a message\<close>

lemma trim_blank: "(\<forall>c\<in>set s. isWhiteSpace c) \<Longrightarrow> trim s = []"
proof -
  assume "\<forall>c\<in>set s. isWhiteSpace c"
  then have "dropWhile isWhiteSpace s = []"
    by simp
  then show ?thesis by (simp add: trim_def del: dropWhile_eq_Nil_conv)
qed

lemma trim_blank_iff: "trim s = [] \<longleftrightarrow> (\<forall>c\<in>set s. isWhiteSpace c)"
proof
  assume t: "trim s = []"
  show "\<forall>c\<in>set s. isWhiteSpace c"
  proof (cases "dropWhile isWhiteSpace s")
    case Nil
    then show ?thesis by simp
  next
    case (Cons x xs)
    then have "\<not> isWhiteSpace x"
      using hd_dropWhile [of isWhiteSpace s] by simp
    moreover from t Cons have "\<forall>c\<in>set (x # xs). isWhiteSpace c"
      by (simp add: trim_def)
    ultimately show ?thesis by simp
  qed
qed (rule trim_blank)

text \<open>
  C10. When the input consists of whitespace only, it trims to the empty string and
  \<open>sendMessage\<close> returns at once: no message is appended, no request is made, and the
  whole state of the page (sessions, hook, input, requests, toasts) is what it was.
\<close>

theorem sendMessage_blank_input:
  "(\<forall>c\<in>set (input st). isWhiteSpace c) \<Longrightarrow>
   trim (input st) = [] \<and> sendMessage e t st = st"
  by (simp add: trim_blank sendMessage_def)

theorem sendMessage_blank_input_witness:
  "trim (input (example_page (utf16 ''   ''))) = [] \<and>
   sendMessage (example_env signed_in mock_server) example_times (example_page (utf16 ''   '')) =
     example_page (utf16 ''   '')"
proof -
  have h: "\<forall>c\<in>set (input (example_page (utf16 ''   ''))). isWhiteSpace c"
    by (simp add: example_page_def utf16_def isWhiteSpace_def)
  show ?thesis
    using sendMessage_blank_input [OF h, of "example_env signed_in mock_server" example_times]
    by simp
qed

subsection \<open>What one send does to the sessions\<close>

lemma fetchChatResponse_rejected:
  "localStorage e (utf16 ''access_token'') = Some token \<Longrightarrow> token \<noteq> [] \<Longrightarrow>
   fetch e (chat_request e token inp) = Rejected \<Longrightarrow>
   fetchChatResponse e inp = (Inl FetchRejected, [chat_request e token inp])"
  by (simp add: fetchChatResponse_def)

lemma fetchChatResponse_not_ok:
  "localStorage e (utf16 ''access_token'') = Some token \<Longrightarrow> token \<noteq> [] \<Longrightarrow>
   fetch e (chat_request e token inp) = Resolved res \<Longrightarrow> \<not> ok res \<Longrightarrow>
   fetchChatResponse e inp =
     (Inl (AIError (status res) (res_text res)), [chat_request e token inp])"
  by (simp add: fetchChatResponse_def)

lemma fetchChatResponse_ok:
  "localStorage e (utf16 ''access_token'') = Some token \<Longrightarrow> token \<noteq> [] \<Longrightarrow>
   fetch e (chat_request e token inp) = Resolved res \<Longrightarrow> ok res \<Longrightarrow>
   res_json res = Some r \<Longrightarrow>
   fetchChatResponse e inp = (Inr r, [chat_request e token inp])"
  by (simp add: fetchChatResponse_def)

lemma ctx_addAIMessage_failed:
  "fst (fetchChatResponse e \<lparr>user_input = x\<rparr>) = Inl err \<Longrightarrow>
   ctx (addAIMessage e a b x st) = ctx st"
  by (cases "fetchChatResponse e \<lparr>user_input = x\<rparr>") (simp add: addAIMessage_def)

lemma ctx_addAIMessage_ok:
  "fst (fetchChatResponse e \<lparr>user_input = x\<rparr>) = Inr r \<Longrightarrow>
   ctx (addAIMessage e a b x st) =
     (case active_chat st of
        None \<Rightarrow> ctx st
      | Some cid \<Rightarrow> addMessageToChat cid (aiMsg a b r) (ctx st))"
  by (cases "fetchChatResponse e \<lparr>user_input = x\<rparr>")
     (simp add: addAIMessage_def active_chat_def split: option.splits)

lemma ctx_addUserMessage:
  "ctx (addUserMessage u st) =
     (case active_chat st of
        None \<Rightarrow> ctx st
      | Some cid \<Rightarrow> addMessageToChat cid u (ctx st))"
  by (simp add: addUserMessage_def split: option.splits)

lemma active_chat_addUserMessage:
  "active_chat (addUserMessage u st\<lparr>input := i, isTyping := b\<rparr>) = active_chat st"
  by (simp add: addUserMessage_def active_chat_def addMessageToChat_def split: option.splits)

lemma ctx_sendMessage:
  "trim (input st) \<noteq> [] \<Longrightarrow>
   ctx (sendMessage e t st) =
     ctx (addAIMessage e (ai_id_ms t) (ai_ts_ms t) (trim (input st))
            (addUserMessage (userMsg t (trim (input st))) st\<lparr>input := [], isTyping := True\<rparr>))"
  by (simp add: sendMessage_def Let_def)

lemma messages_addMessageToChat:
  "i < length (chats c) \<Longrightarrow>
   messages (chats (addMessageToChat cid m c) ! i) =
     messages (chats c ! i) @ (if chat_id (chats c ! i) = cid then [m] else [])"
  by (simp add: addMessageToChat_def)

lemma chat_id_addMessageToChat:
  "i < length (chats c) \<Longrightarrow>
   chat_id (chats (addMessageToChat cid m c) ! i) = chat_id (chats c ! i)"
  by (simp add: addMessageToChat_def)

lemma length_addMessageToChat: "length (chats (addMessageToChat cid m c)) = length (chats c)"
  by (simp add: addMessageToChat_def)

text \<open>
  When the request fails, for whatever reason, the sessions after \<open>sendMessage\<close> are the
  sessions after \<open>addUserMessage\<close> alone.
\<close>

lemma sendMessage_failed_ctx:
  assumes "fst (fetchChatResponse e \<lparr>user_input = trim (input st)\<rparr>) = Inl err"
  shows "ctx (sendMessage e t st) =
     (if trim (input st) = [] then ctx st
      else case active_chat st of
             None \<Rightarrow> ctx st
           | Some cid \<Rightarrow> addMessageToChat cid (userMsg t (trim (input st))) (ctx st))"
proof (cases "trim (input st) = []")
  case True
  then show ?thesis by (simp add: sendMessage_def)
next
  case False
  then show ?thesis
    using assms by (simp add: ctx_sendMessage ctx_addAIMessage_failed ctx_addUserMessage)
qed

lemmas example_defs = example_env_def example_page_def example_context_def example_times_def
  signed_in_def mock_server_def

lemmas chat_defs = sendMessage_def addAIMessage_def addUserMessage_def active_chat_def
  addMessageToChat_def fetchChatResponse_def chat_request_def ok_def trim_def utf16_def
  isWhiteSpace_def Let_def

text \<open>
  C3. When an access token is stored and the request of a send fails (the fetch rejects,
  or the response has a status outside 200 to 299), \<open>fetchChatResponse\<close> throws to its
  caller: the rejection of \<open>fetch\<close>, or \<open>AI error\<close> with the status and the body. The
  caller \<open>addAIMessage\<close> catches it and appends nothing, so each session has after
  \<open>sendMessage\<close> either the messages it had or those followed by the user's message
  alone. The error is what the specification calls \<open>ChatRequestFailed\<close>.
\<close>

theorem sendMessage_request_failed:
  assumes tok: "localStorage e (utf16 ''access_token'') = Some token" "token \<noteq> []"
    and fail: "fetch e (chat_request e token \<lparr>user_input = trim (input st)\<rparr>) = Rejected \<or>
      (\<exists>res. fetch e (chat_request e token \<lparr>user_input = trim (input st)\<rparr>) = Resolved res \<and>
             \<not> ok res)"
  shows "(\<exists>err. fst (fetchChatResponse e \<lparr>user_input = trim (input st)\<rparr>) = Inl err \<and>
            (err = FetchRejected \<or> (\<exists>s b. err = AIError s b))) \<and>
         length (chats (ctx (sendMessage e t st))) = length (chats (ctx st)) \<and>
         fromChild (userMsg t (trim (input st))) \<and>
         (\<forall>i < length (chats (ctx st)).
            messages (chats (ctx (sendMessage e t st)) ! i) = messages (chats (ctx st) ! i) \<or>
            messages (chats (ctx (sendMessage e t st)) ! i) =
              messages (chats (ctx st) ! i) @ [userMsg t (trim (input st))])"
proof -
  let ?inp = "\<lparr>user_input = trim (input st)\<rparr>"
  from fail obtain err where
    err: "fst (fetchChatResponse e ?inp) = Inl err"
      "err = FetchRejected \<or> (\<exists>s b. err = AIError s b)"
  proof
    assume "fetch e (chat_request e token ?inp) = Rejected"
    then have "fetchChatResponse e ?inp = (Inl FetchRejected, [chat_request e token ?inp])"
      using tok by (simp add: fetchChatResponse_rejected)
    then show ?thesis using that by simp
  next
    assume "\<exists>res. fetch e (chat_request e token ?inp) = Resolved res \<and> \<not> ok res"
    then obtain res where
      "fetch e (chat_request e token ?inp) = Resolved res" "\<not> ok res"
      by blast
    then have "fetchChatResponse e ?inp =
        (Inl (AIError (status res) (res_text res)), [chat_request e token ?inp])"
      using tok by (simp add: fetchChatResponse_not_ok)
    then show ?thesis using that by simp
  qed
  note c = sendMessage_failed_ctx [OF err(1), of t]
  have len: "length (chats (ctx (sendMessage e t st))) = length (chats (ctx st))"
    by (simp add: c length_addMessageToChat split: option.splits)
  have msgs: "\<forall>i < length (chats (ctx st)).
            messages (chats (ctx (sendMessage e t st)) ! i) = messages (chats (ctx st) ! i) \<or>
            messages (chats (ctx (sendMessage e t st)) ! i) =
              messages (chats (ctx st) ! i) @ [userMsg t (trim (input st))]"
    by (simp add: c messages_addMessageToChat split: option.splits)
  have "fromChild (userMsg t (trim (input st)))"
    by (simp add: userMsg_def)
  with err len msgs show ?thesis by blast
qed

text \<open>The mocked endpoint answering 500, and the network down: one message, the user's.\<close>

theorem sendMessage_request_failed_witness:
  "fst (fetchChatResponse (example_env signed_in failing_500)
          \<lparr>user_input = utf16 ''trigger error''\<rparr>) =
     Inl (AIError 500 (utf16 ''fail'')) \<and>
   messages (chats (ctx (sendMessage (example_env signed_in failing_500) example_times
      (example_page (utf16 ''trigger error'')))) ! 0) =
     [userMsg example_times (utf16 ''trigger error'')] \<and>
   messages (chats (ctx (sendMessage (example_env signed_in offline) example_times
      (example_page (utf16 ''trigger error'')))) ! 0) =
     [userMsg example_times (utf16 ''trigger error'')]"
  using sendMessage_request_failed [of "example_env signed_in failing_500" "utf16 ''tok''"
      "example_page (utf16 ''trigger error'')" example_times]
    sendMessage_request_failed [of "example_env signed_in offline" "utf16 ''tok''"
      "example_page (utf16 ''trigger error'')" example_times]
  by (simp add: example_defs failing_500_def offline_def chat_defs)

text \<open>
  C2, as the code has it. Let the input trim to a non-empty text, let an access token be
  stored, let the endpoint answer the request with a status from 200 to 299 and a body
  that parses to \<open>r\<close>, and let the active id be the id of a session of the store. Then
  one \<open>sendMessage\<close> appends to that session exactly two messages: the user's, whose
  text is the trimmed input and whose \<open>fromChild\<close> is true, then the AI's, whose
  \<open>fromChild\<close> is false and whose text is the response text of \<open>r\<close>.
\<close>

theorem sendMessage_success:
  assumes nonblank: "trim (input st) \<noteq> []"
    and tok: "localStorage e (utf16 ''access_token'') = Some token" "token \<noteq> []"
    and resp: "fetch e (chat_request e token \<lparr>user_input = trim (input st)\<rparr>) = Resolved res"
      "ok res" "res_json res = Some r"
    and act: "currentChatId (ctx st) = Some cid" "cid \<noteq> []"
    and session: "i < length (chats (ctx st))" "chat_id (chats (ctx st) ! i) = cid"
  shows "messages (chats (ctx (sendMessage e t st)) ! i) =
           messages (chats (ctx st) ! i) @
             [userMsg t (trim (input st)), aiMsg (ai_id_ms t) (ai_ts_ms t) r] \<and>
         msg_text (userMsg t (trim (input st))) = trim (input st) \<and>
         fromChild (userMsg t (trim (input st))) \<and>
         msg_text (aiMsg (ai_id_ms t) (ai_ts_ms t) r) = response r \<and>
         \<not> fromChild (aiMsg (ai_id_ms t) (ai_ts_ms t) r)"
proof -
  have f: "fst (fetchChatResponse e \<lparr>user_input = trim (input st)\<rparr>) = Inr r"
    using fetchChatResponse_ok [OF tok resp] by simp
  have a: "active_chat st = Some cid"
    using act by (simp add: active_chat_def)
  have "ctx (sendMessage e t st) =
      addMessageToChat cid (aiMsg (ai_id_ms t) (ai_ts_ms t) r)
        (addMessageToChat cid (userMsg t (trim (input st))) (ctx st))"
    using nonblank by (simp add: ctx_sendMessage ctx_addAIMessage_ok [OF f]
        active_chat_addUserMessage a ctx_addUserMessage)
  then have "messages (chats (ctx (sendMessage e t st)) ! i) =
           messages (chats (ctx st) ! i) @
             [userMsg t (trim (input st)), aiMsg (ai_id_ms t) (ai_ts_ms t) r]"
    using session
    by (simp add: messages_addMessageToChat length_addMessageToChat chat_id_addMessageToChat)
  then show ?thesis
    by (simp add: userMsg_def aiMsg_def)
qed

text \<open>The scenario of the integration test, with blanks around the typed text.\<close>

theorem sendMessage_success_witness:
  "messages (chats (ctx (sendMessage (example_env signed_in mock_server) example_times
      (example_page (utf16 '' Hello AI  '')))) ! 0) =
     [userMsg example_times (utf16 ''Hello AI''),
      aiMsg 1700000000350 1700000000350
        \<lparr>response = utf16 ''AI echo: Hello AI'', res_sentiment = utf16 ''neutral'',
         res_sentiment_score = 0.5,
         suggested_actions = [utf16 ''Keep the conversation going'']\<rparr>]"
  using sendMessage_success [of "example_page (utf16 '' Hello AI  '')"
     "example_env signed_in mock_server" "utf16 ''tok''"
     "\<lparr>status = 200, res_text = [],
        res_json = Some \<lparr>response = utf16 ''AI echo: Hello AI'',
                         res_sentiment = utf16 ''neutral'',
                         res_sentiment_score = 0.5,
                         suggested_actions = [utf16 ''Keep the conversation going'']\<rparr>\<rparr>"
     "\<lparr>response = utf16 ''AI echo: Hello AI'', res_sentiment = utf16 ''neutral'',
         res_sentiment_score = 0.5,
         suggested_actions = [utf16 ''Keep the conversation going'']\<rparr>"
     "utf16 ''1''" 0 example_times]
  by (simp add: example_defs chat_request_def ok_def trim_def utf16_def isWhiteSpace_def)

text \<open>
  The claim C2 as it is worded fails in two ways. With no access token stored, the
  endpoint that would answer is never asked, and the active session gains the user's
  message only. With a token stored and the input \<open>" Hello AI"\<close>, the user's message has
  the text \<open>"Hello AI"\<close>, which is not the input.
\<close>

theorem sendMessage_two_messages_counterexample:
  "messages (chats (ctx (sendMessage (example_env Map.empty mock_server) example_times
      (example_page (utf16 ''Hello AI'')))) ! 0) =
     [userMsg example_times (utf16 ''Hello AI'')] \<and>
   msg_text (messages (chats (ctx (sendMessage (example_env signed_in mock_server) example_times
      (example_page (utf16 '' Hello AI'')))) ! 0) ! 0) = utf16 ''Hello AI'' \<and>
   utf16 ''Hello AI'' \<noteq> input (example_page (utf16 '' Hello AI''))"
  by (simp add: example_defs chat_defs userMsg_def)

section \<open>Flushing the outbox\<close>

text \<open>
  Saving: objects without an \<open>id\<close> get the keys 1, 2 in their order. Objects with an
  \<open>id\<close> are read back in the order of their ids, which need not be the order of
  insertion (the string 10 lies before the string 9), and a second object with an id in
  use is rejected.
\<close>

lemma saveMessageToOutbox_generated_keys:
  "(case saveMessageToOutbox message_one createObjectStore of
      Inl err \<Rightarrow> False
    | Inr db1 \<Rightarrow>
        (case saveMessageToOutbox message_two db1 of
           Inl err \<Rightarrow> False
         | Inr db2 \<Rightarrow>
             getOutboxMessages db2 =
               [(NumberKey 1, utf16 ''one''), (NumberKey 2, utf16 ''two'')]))"
  by (simp add: saveMessageToOutbox_def createObjectStore_def getOutboxMessages_def
      message_one_def message_two_def numeral_2_eq_2)

lemma saveMessageToOutbox_own_ids:
  "(case saveMessageToOutbox message_9 createObjectStore of
      Inl err \<Rightarrow> False
    | Inr db1 \<Rightarrow>
        (case saveMessageToOutbox message_10 db1 of
           Inl err \<Rightarrow> False
         | Inr db2 \<Rightarrow>
             getOutboxMessages db2 =
               [(StringKey (utf16 ''10''), utf16 ''second''),
                (StringKey (utf16 ''9''), utf16 ''first'')] \<and>
             saveMessageToOutbox message_9 db2 = Inl ConstraintError))"
  by (simp add: saveMessageToOutbox_def createObjectStore_def getOutboxMessages_def
      message_9_def message_10_def utf16_def)

text \<open>
  The send loop by itself: its requests are those of the messages up to the first one
  whose fetch rejects, that one included, and it throws exactly when some fetch rejects.
\<close>

lemma posted_post_each:
  "snd (post_each net msgs) =
     takeWhile (\<lambda>r. net r \<noteq> Rejected) (map outbox_request msgs) @
     take 1 (dropWhile (\<lambda>r. net r \<noteq> Rejected) (map outbox_request msgs))"
  by (induction msgs) (auto split: fetch_outcome.splits prod.splits)

lemma thrown_post_each:
  "fst (post_each net msgs) =
     (if \<exists>m\<in>set msgs. net (outbox_request m) = Rejected then Some FetchFailed else None)"
  by (induction msgs) (auto split: fetch_outcome.splits prod.splits)

text \<open>
  The listener never comes that far. Whatever the store holds and whatever the network
  does, it throws the \<open>TypeError\<close> of line 4: no request is handed to \<open>fetch\<close>, and
  the store is what it was.
\<close>

lemma online_handler_throws:
  "online_handler net stored = \<lparr>db_after = stored, posted = [], thrown = Some TypeError\<rparr>"
  by (simp add: online_handler_def indexedDB_open_def)

text \<open>
  C1. The claim is that a flush against an endpoint that fails every POST leaves the
  outbox empty. With two messages saved and an endpoint that answers 500, the listener
  throws at \<open>db.transaction\<close>, before the loop and before the \<open>clear\<close>: both messages are
  still in the outbox.
\<close>

theorem online_handler_keeps_outbox:
  "(case saveMessageToOutbox message_one createObjectStore of
      Inl err \<Rightarrow> False
    | Inr db1 \<Rightarrow>
        (case saveMessageToOutbox message_two db1 of
           Inl err \<Rightarrow> False
         | Inr db2 \<Rightarrow>
             entries (db_after (online_handler failing_500 db2)) =
               [(NumberKey 1, utf16 ''one''), (NumberKey 2, utf16 ''two'')] \<and>
             thrown (online_handler failing_500 db2) = Some TypeError))"
  by (simp add: online_handler_def indexedDB_open_def saveMessageToOutbox_def
      createObjectStore_def message_one_def message_two_def numeral_2_eq_2)

text \<open>
  C8. The claim is that the flush reads all queued entries and posts each of them, one
  after the other, in the order of insertion. With two messages saved, and a network that
  would answer each request, the listener throws at \<open>db.transaction\<close> and hands no
  request to \<open>fetch\<close>.
\<close>

theorem online_handler_posts_nothing:
  "(case saveMessageToOutbox message_one createObjectStore of
      Inl err \<Rightarrow> False
    | Inr db1 \<Rightarrow>
        (case saveMessageToOutbox message_two db1 of
           Inl err \<Rightarrow> False
         | Inr db2 \<Rightarrow>
             getOutboxMessages db2 =
               [(NumberKey 1, utf16 ''one''), (NumberKey 2, utf16 ''two'')] \<and>
             posted (online_handler failing_500 db2) = []))"
  by (simp add: online_handler_def indexedDB_open_def saveMessageToOutbox_def
      createObjectStore_def getOutboxMessages_def message_one_def message_two_def
      numeral_2_eq_2)

end
